theory Spec2Isabelle
  imports Complex_Main
begin

section \<open>Stored attributes and their defaulting accessors\<close>

text \<open>
  Every stat of a character lives in the attribute store (\<^verbatim>\<open>self.db.x\<close>), where it is
  either absent (\<^verbatim>\<open>None\<close>) or an integer. The public property reads it as
  \<^verbatim>\<open>self.db.x or default\<close>: Python's \<^verbatim>\<open>or\<close> yields the default for every falsy
  stored value, that is for \<^verbatim>\<open>None\<close> and for the integer 0.
\<close>

definition or_default :: "int option \<Rightarrow> int \<Rightarrow> int" where
  "or_default v d = (case v of None \<Rightarrow> d | Some x \<Rightarrow> if x = 0 then d else x)"

datatype typeclass = BaseCharacter | Character

record character =
  cls :: typeclass
  db_hp :: "int option"
  db_hp_max :: "int option"
  db_mana :: "int option"
  db_mana_max :: "int option"
  db_stamina :: "int option"
  db_stamina_max :: "int option"
  db_strength :: "int option"
  db_will :: "int option"
  db_coins :: "int option"
  ndb_combat :: bool
  allow_death :: bool

text \<open>
  \<open>cls\<close> is the class of the object, which decides every dynamically dispatched call;
  \<open>ndb_combat\<close> says whether \<^verbatim>\<open>self.combat\<close> is set; \<open>allow_death\<close> is the flag of
  the room the character stands in (\<^verbatim>\<open>self.location.allow_death\<close>).
\<close>

definition is_pc :: "character \<Rightarrow> bool" where
  "is_pc self = (cls self = Character)"

definition hp :: "character \<Rightarrow> int" where
  "hp self = or_default (db_hp self) 1"

definition hp_max :: "character \<Rightarrow> int" where
  "hp_max self = or_default (db_hp_max self) 1"

definition mana :: "character \<Rightarrow> int" where
  "mana self = or_default (db_mana self) 1"

definition mana_max :: "character \<Rightarrow> int" where
  "mana_max self = or_default (db_mana_max self) 1"

definition stamina :: "character \<Rightarrow> int" where
  "stamina self = or_default (db_stamina self) 1"

definition stamina_max :: "character \<Rightarrow> int" where
  "stamina_max self = or_default (db_stamina_max self) 1"

definition strength :: "character \<Rightarrow> int" where
  "strength self = or_default (db_strength self) 1"

definition will :: "character \<Rightarrow> int" where
  "will self = or_default (db_will self) 1"

text \<open>
  Modelled from the spec: the \<^verbatim>\<open>coins\<close> attribute of a character that is not a player
  character. \<^verbatim>\<open>BaseCharacter.at_pay\<close> reads and writes \<^verbatim>\<open>self.coins\<close>, but only the
  player class declares the property (\<^verbatim>\<open>self.db.coins or 0\<close>); the classes of the other
  lootable characters are not part of the sources. The spec gives every entity a
  currency balance that is an integer, so the balance of every character is read
  the way the player class reads it.
\<close>

definition coins :: "character \<Rightarrow> int" where
  "coins self = or_default (db_coins self) 0"

section \<open>Outputs of a call\<close>

text \<open>
  A method returns the updated character together with what it sent out, in order:
  the hooks it invoked on the object, the calls to the external collaborators
  (\<^verbatim>\<open>rules.dice.roll_death\<close>, \<^verbatim>\<open>self.combat.remove\<close>) and the messages, each message with
  the number it carries.
\<close>

datatype event =
    CallAtDefeat
  | CallAtDeath
  | CallRollDeath
  | CallCombatRemove
  | MsgHealSelf int
  | MsgHealOther int
  | MsgHealed int
  | MsgDie
  | MsgCollapse
  | MsgYield
  | MsgLoot int
  | MsgUsedUp

datatype healer = HealerSelf | HealerOther | HealerNone

section \<open>Status label\<close>

text \<open>
  \<^verbatim>\<open>self.hp / self.hp_max\<close> is Python's true division. The quotient is taken here as the
  exact rational number; the rounding of the floating-point quotient is not modelled.
  \<open>hp_max\<close> is never 0, since the accessor replaces a stored 0 by 1. A chain of
  \<^verbatim>\<open>if/elif\<close> without a final \<^verbatim>\<open>else\<close> returns \<^verbatim>\<open>None\<close> when no test holds.
\<close>

definition hurt_level_of :: "rat \<Rightarrow> string option" where
  "hurt_level_of percent =
     (if 95 < percent \<and> percent \<le> 100 then Some ''|gPerfect|n''
      else if 80 < percent \<and> percent \<le> 95 then Some ''|gScraped|n''
      else if 60 < percent \<and> percent \<le> 80 then Some ''|GBruised|n''
      else if 45 < percent \<and> percent \<le> 60 then Some ''|yHurt|n''
      else if 30 < percent \<and> percent \<le> 45 then Some ''|yWounded|n''
      else if 15 < percent \<and> percent \<le> 30 then Some ''|rBadly wounded|n''
      else if 1 < percent \<and> percent \<le> 15 then Some ''|rBarely hanging on|n''
      else if percent = 0 then Some ''|RCollapsed!|n''
      else None)"

definition percent_of :: "character \<Rightarrow> rat" where
  "percent_of self = max 0 (min 100 (100 * (of_int (hp self) / of_int (hp_max self))))"

definition hurt_level :: "character \<Rightarrow> string option" where
  "hurt_level self = hurt_level_of (percent_of self)"

section \<open>Healing, damage, recovery, defeat\<close>

definition heal :: "character \<Rightarrow> int \<Rightarrow> healer \<Rightarrow> character \<times> event list" where
  "heal self amount healer =
     (let damage = hp_max self - hp self;
          healed = min damage amount;
          self1 = self\<lparr>db_hp := Some (hp self + healed)\<rparr>
      in (self1,
          [case healer of
             HealerSelf \<Rightarrow> MsgHealSelf healed
           | HealerOther \<Rightarrow> MsgHealOther healed
           | HealerNone \<Rightarrow> MsgHealed healed]))"

definition BaseCharacter_at_death :: "character \<Rightarrow> character \<times> event list" where
  "BaseCharacter_at_death self =
     (self, CallAtDeath # (if ndb_combat self then [CallCombatRemove] else []) @ [MsgDie])"

definition Character_at_death :: "character \<Rightarrow> character \<times> event list" where
  "Character_at_death self = (self, [CallAtDeath, MsgCollapse])"

definition at_death :: "character \<Rightarrow> character \<times> event list" where
  "at_death self =
     (case cls self of
        BaseCharacter \<Rightarrow> BaseCharacter_at_death self
      | Character \<Rightarrow> Character_at_death self)"

definition BaseCharacter_at_defeat :: "character \<Rightarrow> character \<times> event list" where
  "BaseCharacter_at_defeat self =
     (let (self1, out) = at_death self in (self1, CallAtDefeat # out))"

text \<open>
  \<^verbatim>\<open>rules.dice.roll_death(self)\<close> belongs to the rules module, which is not part of the
  sources: it is the parameter \<open>roll_death\<close>, any function that returns the character
  as the death table leaves it.
\<close>

definition Character_at_defeat ::
  "(character \<Rightarrow> character) \<Rightarrow> character \<Rightarrow> character \<times> event list" where
  "Character_at_defeat roll_death self =
     (if allow_death self then (roll_death self, [CallAtDefeat, CallRollDeath])
      else (self\<lparr>db_hp := Some (hp_max self)\<rparr>, [CallAtDefeat, MsgYield]))"

definition at_defeat ::
  "(character \<Rightarrow> character) \<Rightarrow> character \<Rightarrow> character \<times> event list" where
  "at_defeat roll_death self =
     (case cls self of
        BaseCharacter \<Rightarrow> BaseCharacter_at_defeat self
      | Character \<Rightarrow> Character_at_defeat roll_death self)"

definition at_damage ::
  "(character \<Rightarrow> character) \<Rightarrow> character \<Rightarrow> int \<Rightarrow> character \<times> event list" where
  "at_damage roll_death self damage =
     (let self1 = self\<lparr>db_hp := Some (hp self - damage)\<rparr>
      in if hp self1 \<le> 0 then at_defeat roll_death self1 else (self1, []))"

definition at_recovery :: "character \<Rightarrow> character" where
  "at_recovery self =
     (let self1 = self\<lparr>db_stamina := Some (stamina self + strength self)\<rparr>;
          self2 = (if stamina self1 > stamina_max self1
                   then self1\<lparr>db_stamina := Some (stamina_max self1)\<rparr> else self1);
          self3 = self2\<lparr>db_mana := Some (mana self2 + will self2)\<rparr>;
          self4 = (if mana self3 > mana_max self3
                   then self3\<lparr>db_mana := Some (mana_max self3)\<rparr> else self3)
      in self4)"

section \<open>Sequences of calls on one character\<close>

datatype op = Damage int | Heal int healer | Recovery

fun apply_op :: "(character \<Rightarrow> character) \<Rightarrow> character \<Rightarrow> op \<Rightarrow> character \<times> event list" where
  "apply_op roll_death self (Damage damage) = at_damage roll_death self damage"
| "apply_op roll_death self (Heal amount healer) = heal self amount healer"
| "apply_op roll_death self Recovery = (at_recovery self, [])"

fun run :: "(character \<Rightarrow> character) \<Rightarrow> character \<Rightarrow> op list \<Rightarrow> character \<times> event list" where
  "run roll_death self [] = (self, [])"
| "run roll_death self (x # xs) =
     (let (self1, out1) = apply_op roll_death self x;
          (self2, out2) = run roll_death self1 xs
      in (self2, out1 @ out2))"

definition defeats :: "event list \<Rightarrow> nat" where
  "defeats out = count_list out CallAtDefeat"

definition death_rolls :: "event list \<Rightarrow> nat" where
  "death_rolls out = count_list out CallRollDeath"

text \<open>The pool invariant of the data model, read through the accessors.\<close>

definition pool_ok :: "int \<Rightarrow> int \<Rightarrow> bool" where
  "pool_ok current maximum = (0 \<le> current \<and> current \<le> maximum \<and> 1 \<le> maximum)"

definition pools_inv :: "character \<Rightarrow> bool" where
  "pools_inv self =
     (pool_ok (hp self) (hp_max self) \<and>
      pool_ok (stamina self) (stamina_max self) \<and>
      pool_ok (mana self) (mana_max self))"

text \<open>
  What the three calls do keep: the upper bound of every pool, and the lower bound of
  stamina and mana as long as the regeneration rates are not negative.
\<close>

definition pools_bounded :: "character \<Rightarrow> bool" where
  "pools_bounded self =
     (hp self \<le> hp_max self \<and> 1 \<le> hp_max self \<and>
      pool_ok (stamina self) (stamina_max self) \<and>
      pool_ok (mana self) (mana_max self) \<and>
      0 \<le> strength self \<and> 0 \<le> will self)"

fun op_ok :: "op \<Rightarrow> bool" where
  "op_ok (Damage damage) = (0 \<le> damage)"
| "op_ok (Heal amount healer) = True"
| "op_ok Recovery = True"

section \<open>Looting\<close>

text \<open>
  Looting touches two objects, and the looter may be any object, the victim included:
  the objects live in a store indexed by object id, and the methods take the ids.
  \<^verbatim>\<open>rules.dice.roll("1d10")\<close> is external; its result is the argument \<open>max_steal\<close>.
\<close>

type_synonym store = "nat \<Rightarrow> character"

definition at_pay :: "character \<Rightarrow> int \<Rightarrow> int \<times> character" where
  "at_pay self amount =
     (let amount1 = min amount (coins self)
      in (amount1, self\<lparr>db_coins := Some (coins self - amount1)\<rparr>))"

definition BaseCharacter_at_looted :: "int \<Rightarrow> store \<Rightarrow> nat \<Rightarrow> nat \<Rightarrow> store \<times> event list" where
  "BaseCharacter_at_looted max_steal st self looter =
     (let (stolen, self1) = at_pay (st self) max_steal;
          st1 = st(self := self1);
          st2 = st1(looter := (st1 looter)\<lparr>db_coins := Some (coins (st1 looter) + stolen)\<rparr>)
      in (st2, [MsgLoot stolen]))"

definition Character_at_looted :: "store \<Rightarrow> nat \<Rightarrow> nat \<Rightarrow> store \<times> event list" where
  "Character_at_looted st self looter = (st, [])"

definition at_looted :: "int \<Rightarrow> store \<Rightarrow> nat \<Rightarrow> nat \<Rightarrow> store \<times> event list" where
  "at_looted max_steal st self looter =
     (case cls (st self) of
        BaseCharacter \<Rightarrow> BaseCharacter_at_looted max_steal st self looter
      | Character \<Rightarrow> Character_at_looted st self looter)"

definition at_do_loot :: "int \<Rightarrow> store \<Rightarrow> nat \<Rightarrow> nat \<Rightarrow> store \<times> event list" where
  "at_do_loot max_steal st self defeated_enemy = at_looted max_steal st defeated_enemy self"

section \<open>Consumable items\<close>

datatype item_class = ConsumableObject | Runestone

record item =
  item_cls :: item_class
  db_uses :: "int option"
  deleted :: bool

definition uses :: "item \<Rightarrow> int" where
  "uses self = or_default (db_uses self) 1"

definition ConsumableObject_at_post_use :: "item \<Rightarrow> item \<times> event list" where
  "ConsumableObject_at_post_use self =
     (let self1 = self\<lparr>db_uses := Some (uses self - 1)\<rparr>
      in if uses self1 \<le> 0 then (self1\<lparr>deleted := True\<rparr>, [MsgUsedUp]) else (self1, []))"

definition Runestone_at_post_use :: "item \<Rightarrow> item \<times> event list" where
  "Runestone_at_post_use self = (self\<lparr>db_uses := Some (uses self - 1)\<rparr>, [])"

definition at_post_use :: "item \<Rightarrow> item \<times> event list" where
  "at_post_use self =
     (case item_cls self of
        ConsumableObject \<Rightarrow> ConsumableObject_at_post_use self
      | Runestone \<Rightarrow> Runestone_at_post_use self)"

definition refresh :: "item \<Rightarrow> item" where
  "refresh self = self\<lparr>db_uses := Some 1\<rparr>"

section \<open>Concrete objects\<close>

definition mk_char :: "typeclass \<Rightarrow> int \<Rightarrow> int \<Rightarrow> bool \<Rightarrow> character" where
  "mk_char c h m death =
     \<lparr>cls = c, db_hp = Some h, db_hp_max = Some m,
      db_mana = Some 10, db_mana_max = Some 10,
      db_stamina = Some 4, db_stamina_max = Some 4,
      db_strength = Some 1, db_will = Some 1, db_coins = Some 0,
      ndb_combat = False, allow_death = death\<rparr>"

definition mk_item :: "item_class \<Rightarrow> int \<Rightarrow> item" where
  "mk_item c n = \<lparr>item_cls = c, db_uses = Some n, deleted = False\<rparr>"

definition mk_store :: "character \<Rightarrow> character \<Rightarrow> store" where
  "mk_store victim other = (\<lambda>i. if i = 0 then victim else other)"

section \<open>Reading and writing through the accessors\<close>

lemma or_default_Some: "or_default (Some x) d = (if x = 0 then d else x)"
  by (simp add: or_default_def)

lemma or_default_None: "or_default None d = d"
  by (simp add: or_default_def)

lemma or_default_one_nonzero: "or_default v 1 \<noteq> 0"
  by (simp add: or_default_def split: option.splits)

lemma hp_update [simp]: "hp (self\<lparr>db_hp := Some v\<rparr>) = (if v = 0 then 1 else v)"
  by (simp add: hp_def or_default_def)

lemma hp_max_update_hp [simp]: "hp_max (self\<lparr>db_hp := v\<rparr>) = hp_max self"
  by (simp add: hp_max_def)

lemma hp_nonzero: "hp self \<noteq> 0"
  by (simp add: hp_def or_default_one_nonzero)

lemma hp_max_nonzero: "hp_max self \<noteq> 0"
  by (simp add: hp_max_def or_default_one_nonzero)

lemma coins_update [simp]: "coins (self\<lparr>db_coins := Some v\<rparr>) = v"
  by (simp add: coins_def or_default_def)

lemma uses_update [simp]: "uses (self\<lparr>db_uses := Some v\<rparr>) = (if v = 0 then 1 else v)"
  by (simp add: uses_def or_default_def)

section \<open>The status label and its gap\<close>

lemma hurt_level_of_Collapsed: "hurt_level_of p = Some ''|RCollapsed!|n'' \<longleftrightarrow> p = 0"
  by (simp add: hurt_level_of_def)

lemma percent_of_range: "0 \<le> percent_of self \<and> percent_of self \<le> 100"
  by (simp add: percent_of_def)

lemma hurt_level_of_None: "hurt_level_of p = None \<longleftrightarrow> p < 0 \<or> (0 < p \<and> p \<le> 1) \<or> 100 < p"
  by (auto simp add: hurt_level_of_def)

text \<open>
  The label is missing exactly for the percentages above 0 and up to 1: the lowest
  band above zero starts at 1, not at 0.
\<close>

lemma hurt_level_None: "hurt_level self = None \<longleftrightarrow> 0 < percent_of self \<and> percent_of self \<le> 1"
  using percent_of_range [of self] by (auto simp add: hurt_level_def hurt_level_of_None)

text \<open>
  C4. For every HP ratio in [0,1] the status function returns one of the 8 band labels,
  boundary values belonging to the upper band: 0.80 gives the Bruised band, 0.0 the zero
  band, 1.0 the perfect band. The three boundary values are labelled as claimed, but
  the function is not total on [0,1]: a player character at HP 1 of 200 (0.5 percent)
  and one at HP 1 of 100 (1 percent) get no label at all.
\<close>

theorem hurt_level_gap:
  "hurt_level (mk_char Character 1 200 False) = None \<and>
   hurt_level (mk_char Character 1 100 False) = None \<and>
   hurt_level (mk_char Character 4 5 False) = Some ''|GBruised|n'' \<and>
   hurt_level (mk_char Character 10 10 False) = Some ''|gPerfect|n'' \<and>
   hurt_level (mk_char Character (- 3) 10 False) = Some ''|RCollapsed!|n''"
  by (simp add: hurt_level_def hurt_level_of_def percent_of_def mk_char_def hp_def hp_max_def
      or_default_def)

section \<open>A stored zero is read as one\<close>

text \<open>
  C9. A character whose stored hp is 0 reads as HP 1 through the accessor. So when
  damage takes the stored hp to exactly 0, the stored value is 0, every reader sees 1,
  the defeat test does not fire, and the status label is computed from HP 1 (with a
  maximum of at least 1 it is never the zero label).
\<close>

theorem stored_zero_hp_reads_one:
  "(db_hp self = Some 0 \<longrightarrow> hp self = 1) \<and>
   (hp self - damage = 0 \<longrightarrow>
      db_hp (fst (at_damage roll_death self damage)) = Some 0 \<and>
      hp (fst (at_damage roll_death self damage)) = 1 \<and>
      snd (at_damage roll_death self damage) = [] \<and>
      percent_of (fst (at_damage roll_death self damage)) =
        max 0 (min 100 (100 * (1 / of_int (hp_max self)))) \<and>
      (1 \<le> hp_max self \<longrightarrow>
         hurt_level (fst (at_damage roll_death self damage)) \<noteq> Some ''|RCollapsed!|n''))"
proof -
  have a: "db_hp self = Some 0 \<longrightarrow> hp self = 1"
    by (simp add: hp_def or_default_def)
  have b: "at_damage roll_death self damage = (self\<lparr>db_hp := Some 0\<rparr>, [])"
    if "hp self - damage = 0"
    using that by (simp add: at_damage_def Let_def)
  have c: "percent_of (self\<lparr>db_hp := Some 0\<rparr>) = max 0 (min 100 (100 * (1 / of_int (hp_max self))))"
    by (simp add: percent_of_def)
  have d: "hurt_level (self\<lparr>db_hp := Some 0\<rparr>) \<noteq> Some ''|RCollapsed!|n''" if "1 \<le> hp_max self"
  proof -
    have "0 < (of_int (hp_max self) :: rat)" using that by simp
    then have "0 < 100 / (of_int (hp_max self) :: rat)" by simp
    then have "percent_of (self\<lparr>db_hp := Some 0\<rparr>) \<noteq> 0"
      unfolding c by (simp add: min_def max_def)
    then show ?thesis by (simp add: hurt_level_def hurt_level_of_Collapsed)
  qed
  show ?thesis using a b c d by simp
qed

theorem stored_zero_hp_reads_one_witness:
  "db_hp (mk_char BaseCharacter 0 10 True) = Some 0 \<and>
   hp (mk_char BaseCharacter 0 10 True) = 1 \<and>
   hp (mk_char Character 5 10 False) - 5 = 0 \<and>
   1 \<le> hp_max (mk_char Character 5 10 False) \<and>
   db_hp (fst (at_damage id (mk_char Character 5 10 False) 5)) = Some 0 \<and>
   hp (fst (at_damage id (mk_char Character 5 10 False) 5)) = 1 \<and>
   snd (at_damage id (mk_char Character 5 10 False) 5) = [] \<and>
   hurt_level (fst (at_damage id (mk_char Character 5 10 False) 5)) \<noteq> Some ''|RCollapsed!|n''"
proof -
  have h1: "db_hp (mk_char BaseCharacter 0 10 True) = Some 0"
    by (simp add: mk_char_def)
  have h2: "hp (mk_char Character 5 10 False) - 5 = 0"
    by (simp add: mk_char_def hp_def or_default_def)
  have h3: "1 \<le> hp_max (mk_char Character 5 10 False)"
    by (simp add: mk_char_def hp_max_def or_default_def)
  show ?thesis
    using h1 h2 h3
      stored_zero_hp_reads_one [of "mk_char BaseCharacter 0 10 True" 0 id]
      stored_zero_hp_reads_one [of "mk_char Character 5 10 False" 5 id]
    by simp
qed

section \<open>What healing reports\<close>

text \<open>
  \<open>heal\<close> computes healed = min(hp_max - hp_before, amount), writes the HP it read
  before the call plus healed, and puts healed, not the requested amount, in the
  message. What a reader sees afterwards is the value written unless that value is 0,
  which the accessor shows as 1.
\<close>

lemma heal_writes_read_plus_healed:
  "snd (heal self amount healer) =
     [case healer of
        HealerSelf \<Rightarrow> MsgHealSelf (min (hp_max self - hp self) amount)
      | HealerOther \<Rightarrow> MsgHealOther (min (hp_max self - hp self) amount)
      | HealerNone \<Rightarrow> MsgHealed (min (hp_max self - hp self) amount)] \<and>
   db_hp (fst (heal self amount healer)) = Some (hp self + min (hp_max self - hp self) amount) \<and>
   hp (fst (heal self amount healer)) =
     (if hp self + min (hp_max self - hp self) amount = 0 then 1
      else hp self + min (hp_max self - hp self) amount)"
  by (simp add: heal_def Let_def)

text \<open>
  C5. For a character with HP at most the maximum, heal sets healed = min(hp_max -
  hp_before, amount), increases the current HP by exactly healed and reports healed; a
  character at 7 of 10 healed for 50 is told 3 and ends at 10. The example holds, and
  healed and the report are as claimed, but the HP does not always rise by healed. A
  BaseCharacter at 5 of 10 that took 8 damage stands at -3 of 10; healed for 3 it is
  told 3, the value written is 0, and every reader sees HP 1, a rise of 4. A character
  at 1 of 10 healed for -1 is told -1 and still reads HP 1.
\<close>

theorem heal_to_zero_reads_one:
  "fst (at_damage id (mk_char BaseCharacter 5 10 True) 8) = mk_char BaseCharacter (- 3) 10 True \<and>
   hp (mk_char BaseCharacter (- 3) 10 True) = - 3 \<and>
   hp (mk_char BaseCharacter (- 3) 10 True) \<le> hp_max (mk_char BaseCharacter (- 3) 10 True) \<and>
   snd (heal (mk_char BaseCharacter (- 3) 10 True) 3 HealerNone) = [MsgHealed 3] \<and>
   db_hp (fst (heal (mk_char BaseCharacter (- 3) 10 True) 3 HealerNone)) = Some 0 \<and>
   hp (fst (heal (mk_char BaseCharacter (- 3) 10 True) 3 HealerNone)) = 1 \<and>
   hp (mk_char Character 1 10 True) = 1 \<and>
   snd (heal (mk_char Character 1 10 True) (- 1) HealerNone) = [MsgHealed (- 1)] \<and>
   hp (fst (heal (mk_char Character 1 10 True) (- 1) HealerNone)) = 1 \<and>
   snd (heal (mk_char Character 7 10 True) 50 HealerNone) = [MsgHealed 3] \<and>
   hp (fst (heal (mk_char Character 7 10 True) 50 HealerNone)) = 10"
  by (simp add: heal_def Let_def mk_char_def at_damage_def at_defeat_def
      BaseCharacter_at_defeat_def at_death_def BaseCharacter_at_death_def
      hp_def hp_max_def or_default_def)

section \<open>Defeat of a player character\<close>

text \<open>
  C6. A player character defeated where death is forbidden gets the HP set to the
  maximum and the yield message, and the death roll is not called; where death is
  allowed, the death roll is called exactly once and the character is left exactly as
  the death roll returns it, with no write to HP by \<open>at_defeat\<close> itself.
\<close>

theorem pc_defeat_yields_or_rolls_death:
  "cls self = Character \<Longrightarrow>
   (\<not> allow_death self \<longrightarrow>
      fst (at_defeat roll_death self) = self\<lparr>db_hp := Some (hp_max self)\<rparr> \<and>
      hp (fst (at_defeat roll_death self)) = hp_max (fst (at_defeat roll_death self)) \<and>
      snd (at_defeat roll_death self) = [CallAtDefeat, MsgYield] \<and>
      death_rolls (snd (at_defeat roll_death self)) = 0) \<and>
   (allow_death self \<longrightarrow>
      fst (at_defeat roll_death self) = roll_death self \<and>
      snd (at_defeat roll_death self) = [CallAtDefeat, CallRollDeath] \<and>
      death_rolls (snd (at_defeat roll_death self)) = 1)"
  using hp_max_nonzero [of self]
  by (simp add: at_defeat_def Character_at_defeat_def death_rolls_def)

theorem pc_defeat_yields_or_rolls_death_witness:
  "cls (mk_char Character (- 2) 10 False) = Character \<and>
   \<not> allow_death (mk_char Character (- 2) 10 False) \<and>
   hp (fst (at_defeat id (mk_char Character (- 2) 10 False))) = 10 \<and>
   death_rolls (snd (at_defeat id (mk_char Character (- 2) 10 False))) = 0 \<and>
   cls (mk_char Character (- 2) 10 True) = Character \<and>
   allow_death (mk_char Character (- 2) 10 True) \<and>
   hp (fst (at_defeat id (mk_char Character (- 2) 10 True))) = - 2 \<and>
   death_rolls (snd (at_defeat id (mk_char Character (- 2) 10 True))) = 1"
proof -
  have a: "cls (mk_char Character (- 2) 10 False) = Character"
    and b: "\<not> allow_death (mk_char Character (- 2) 10 False)"
    and c: "cls (mk_char Character (- 2) 10 True) = Character"
    and d: "allow_death (mk_char Character (- 2) 10 True)"
    by (simp_all add: mk_char_def)
  have e: "hp_max (mk_char Character (- 2) 10 False) = 10" "hp (mk_char Character (- 2) 10 True) = - 2"
    by (simp_all add: mk_char_def hp_def hp_max_def or_default_def)
  show ?thesis
    using a b c d e
      pc_defeat_yields_or_rolls_death [OF a, of id]
      pc_defeat_yields_or_rolls_death [OF c, of id]
    by (simp add: death_rolls_def)
qed

section \<open>What looting moves\<close>

text \<open>
  C7. \<^verbatim>\<open>BaseCharacter.at_looted\<close> with dice result r, on a victim and a looter that are
  two objects: stolen = min(r, the victim's coins) is the number in the message, the
  victim's coins go down by exactly stolen and stay non-negative when they were, the
  looter's coins go up by exactly stolen, and the sum of the two balances is unchanged.
  It is the method that runs for every victim of class BaseCharacter. A victim with 3
  coins and a roll of 10 loses 3 and ends at 0; the looter gains 3.
\<close>

theorem loot_takes_min_of_roll_and_purse:
  "self \<noteq> looter \<Longrightarrow>
   snd (BaseCharacter_at_looted r st self looter) = [MsgLoot (min r (coins (st self)))] \<and>
   coins (fst (BaseCharacter_at_looted r st self looter) self)
     = coins (st self) - min r (coins (st self)) \<and>
   coins (fst (BaseCharacter_at_looted r st self looter) looter)
     = coins (st looter) + min r (coins (st self)) \<and>
   coins (fst (BaseCharacter_at_looted r st self looter) self)
     + coins (fst (BaseCharacter_at_looted r st self looter) looter)
     = coins (st self) + coins (st looter) \<and>
   (0 \<le> coins (st self) \<longrightarrow> 0 \<le> coins (fst (BaseCharacter_at_looted r st self looter) self)) \<and>
   (cls (st self) = BaseCharacter \<longrightarrow>
      at_looted r st self looter = BaseCharacter_at_looted r st self looter)"
  by (simp add: BaseCharacter_at_looted_def at_looted_def at_pay_def Let_def)

theorem loot_takes_min_of_roll_and_purse_witness:
  "(0::nat) \<noteq> 1 \<and>
   coins (mk_store ((mk_char BaseCharacter 0 5 True)\<lparr>db_coins := Some 3\<rparr>)
            ((mk_char Character 10 10 True)\<lparr>db_coins := Some 7\<rparr>) 0) = 3 \<and>
   snd (at_looted 10 (mk_store ((mk_char BaseCharacter 0 5 True)\<lparr>db_coins := Some 3\<rparr>)
            ((mk_char Character 10 10 True)\<lparr>db_coins := Some 7\<rparr>)) 0 1) = [MsgLoot 3] \<and>
   coins (fst (at_looted 10 (mk_store ((mk_char BaseCharacter 0 5 True)\<lparr>db_coins := Some 3\<rparr>)
            ((mk_char Character 10 10 True)\<lparr>db_coins := Some 7\<rparr>)) 0 1) 0) = 0 \<and>
   coins (fst (at_looted 10 (mk_store ((mk_char BaseCharacter 0 5 True)\<lparr>db_coins := Some 3\<rparr>)
            ((mk_char Character 10 10 True)\<lparr>db_coins := Some 7\<rparr>)) 0 1) 1) = 10"
proof -
  let ?st = "mk_store ((mk_char BaseCharacter 0 5 True)\<lparr>db_coins := Some 3\<rparr>)
            ((mk_char Character 10 10 True)\<lparr>db_coins := Some 7\<rparr>)"
  have n: "(0::nat) \<noteq> 1" by simp
  have s: "coins (?st 0) = 3" "coins (?st 1) = 7" "cls (?st 0) = BaseCharacter"
    by (simp_all add: mk_store_def mk_char_def coins_def or_default_def)
  show ?thesis
    using n s loot_takes_min_of_roll_and_purse [OF n, of 10 ?st]
    by simp
qed

text \<open>
  C10. For a victim that is a player character, \<open>at_looted\<close> changes nothing: the whole
  store, so every field of the victim, of the looter and of every other object, is as
  before, and nothing is sent. The method it overrides would have taken the coins.
\<close>

theorem pc_at_looted_is_noop:
  "cls (st self) = Character \<Longrightarrow>
   at_looted r st self looter = (st, []) \<and> at_do_loot r st looter self = (st, [])"
  by (simp add: at_looted_def at_do_loot_def Character_at_looted_def)

theorem pc_at_looted_is_noop_witness:
  "cls (mk_store ((mk_char Character 0 10 True)\<lparr>db_coins := Some 3\<rparr>)
            ((mk_char Character 10 10 True)\<lparr>db_coins := Some 7\<rparr>) 0) = Character \<and>
   fst (at_looted 10 (mk_store ((mk_char Character 0 10 True)\<lparr>db_coins := Some 3\<rparr>)
            ((mk_char Character 10 10 True)\<lparr>db_coins := Some 7\<rparr>)) 0 1)
     = mk_store ((mk_char Character 0 10 True)\<lparr>db_coins := Some 3\<rparr>)
            ((mk_char Character 10 10 True)\<lparr>db_coins := Some 7\<rparr>) \<and>
   snd (at_looted 10 (mk_store ((mk_char Character 0 10 True)\<lparr>db_coins := Some 3\<rparr>)
            ((mk_char Character 10 10 True)\<lparr>db_coins := Some 7\<rparr>)) 0 1) = [] \<and>
   coins (fst (BaseCharacter_at_looted 10 (mk_store ((mk_char Character 0 10 True)\<lparr>db_coins := Some 3\<rparr>)
            ((mk_char Character 10 10 True)\<lparr>db_coins := Some 7\<rparr>)) 0 1) 0) = 0"
proof -
  have c: "cls (mk_store ((mk_char Character 0 10 True)\<lparr>db_coins := Some 3\<rparr>)
            ((mk_char Character 10 10 True)\<lparr>db_coins := Some 7\<rparr>) 0) = Character"
    by (simp add: mk_store_def mk_char_def)
  have b: "coins (fst (BaseCharacter_at_looted 10 (mk_store ((mk_char Character 0 10 True)\<lparr>db_coins := Some 3\<rparr>)
            ((mk_char Character 10 10 True)\<lparr>db_coins := Some 7\<rparr>)) 0 1) 0) = 0"
    by (simp add: BaseCharacter_at_looted_def at_pay_def Let_def mk_store_def mk_char_def
        coins_def or_default_def)
  show ?thesis
    using c b
      pc_at_looted_is_noop [of "mk_store ((mk_char Character 0 10 True)\<lparr>db_coins := Some 3\<rparr>)
            ((mk_char Character 10 10 True)\<lparr>db_coins := Some 7\<rparr>)" 0 10 1]
    by simp
qed

section \<open>Using up consumables\<close>

text \<open>
  C8, as stated, fails on a rune stone: with one use left, the use takes the counter to
  0 and the stone is kept (it is refreshed after a rest instead).
\<close>

theorem runestone_not_removed_at_zero:
  "db_uses (fst (at_post_use (mk_item Runestone 1))) = Some 0 \<and>
   \<not> deleted (fst (at_post_use (mk_item Runestone 1)))"
  by (simp add: at_post_use_def Runestone_at_post_use_def mk_item_def uses_def or_default_def)

text \<open>
  C8, amended. Each use stores the counter, as read, minus 1. A rune stone is never
  removed by a use. A plain consumable whose counter is above zero after the decrement
  is not removed and reads one less; one whose counter is below zero after the decrement
  is reported as used up and removed.
\<close>

theorem post_use_decrements_and_removes:
  "db_uses (fst (at_post_use self)) = Some (uses self - 1) \<and>
   (item_cls self = Runestone \<longrightarrow>
      deleted (fst (at_post_use self)) = deleted self \<and> snd (at_post_use self) = []) \<and>
   (item_cls self = ConsumableObject \<and> 0 < uses self - 1 \<longrightarrow>
      deleted (fst (at_post_use self)) = deleted self \<and>
      uses (fst (at_post_use self)) = uses self - 1 \<and>
      snd (at_post_use self) = []) \<and>
   (item_cls self = ConsumableObject \<and> uses self - 1 < 0 \<longrightarrow>
      deleted (fst (at_post_use self)) \<and> snd (at_post_use self) = [MsgUsedUp])"
  by (cases "item_cls self")
    (simp_all add: at_post_use_def Runestone_at_post_use_def ConsumableObject_at_post_use_def Let_def)

theorem post_use_decrements_and_removes_witness:
  "item_cls (mk_item Runestone 1) = Runestone \<and>
   db_uses (fst (at_post_use (mk_item Runestone 1))) = Some 0 \<and>
   \<not> deleted (fst (at_post_use (mk_item Runestone 1))) \<and>
   item_cls (mk_item ConsumableObject 3) = ConsumableObject \<and>
   0 < uses (mk_item ConsumableObject 3) - 1 \<and>
   uses (fst (at_post_use (mk_item ConsumableObject 3))) = 2 \<and>
   \<not> deleted (fst (at_post_use (mk_item ConsumableObject 3))) \<and>
   item_cls (mk_item ConsumableObject (- 1)) = ConsumableObject \<and>
   uses (mk_item ConsumableObject (- 1)) - 1 < 0 \<and>
   deleted (fst (at_post_use (mk_item ConsumableObject (- 1))))"
proof -
  have u: "uses (mk_item Runestone 1) = 1" "uses (mk_item ConsumableObject 3) = 3"
    "uses (mk_item ConsumableObject (- 1)) = - 1"
    by (simp_all add: mk_item_def uses_def or_default_def)
  have c: "item_cls (mk_item Runestone 1) = Runestone"
    "item_cls (mk_item ConsumableObject 3) = ConsumableObject"
    "item_cls (mk_item ConsumableObject (- 1)) = ConsumableObject"
    "\<not> deleted (mk_item Runestone 1)" "\<not> deleted (mk_item ConsumableObject 3)"
    by (simp_all add: mk_item_def)
  show ?thesis
    using u c
      post_use_decrements_and_removes [of "mk_item Runestone 1"]
      post_use_decrements_and_removes [of "mk_item ConsumableObject 3"]
      post_use_decrements_and_removes [of "mk_item ConsumableObject (- 1)"]
    by simp
qed

section \<open>Damage, defeat and the pool bounds\<close>

lemma accessors_update_hp [simp]:
  "stamina (self\<lparr>db_hp := v\<rparr>) = stamina self"
  "stamina_max (self\<lparr>db_hp := v\<rparr>) = stamina_max self"
  "mana (self\<lparr>db_hp := v\<rparr>) = mana self"
  "mana_max (self\<lparr>db_hp := v\<rparr>) = mana_max self"
  "strength (self\<lparr>db_hp := v\<rparr>) = strength self"
  "will (self\<lparr>db_hp := v\<rparr>) = will self"
  by (simp_all add: stamina_def stamina_max_def mana_def mana_max_def strength_def will_def)

lemma accessors_update_stamina [simp]:
  "stamina (self\<lparr>db_stamina := Some v\<rparr>) = (if v = 0 then 1 else v)"
  "hp (self\<lparr>db_stamina := w\<rparr>) = hp self"
  "hp_max (self\<lparr>db_stamina := w\<rparr>) = hp_max self"
  "stamina_max (self\<lparr>db_stamina := w\<rparr>) = stamina_max self"
  "mana (self\<lparr>db_stamina := w\<rparr>) = mana self"
  "mana_max (self\<lparr>db_stamina := w\<rparr>) = mana_max self"
  "strength (self\<lparr>db_stamina := w\<rparr>) = strength self"
  "will (self\<lparr>db_stamina := w\<rparr>) = will self"
  by (simp_all add: hp_def hp_max_def stamina_def stamina_max_def mana_def mana_max_def
      strength_def will_def or_default_def)

lemma accessors_update_mana [simp]:
  "mana (self\<lparr>db_mana := Some v\<rparr>) = (if v = 0 then 1 else v)"
  "hp (self\<lparr>db_mana := w\<rparr>) = hp self"
  "hp_max (self\<lparr>db_mana := w\<rparr>) = hp_max self"
  "stamina (self\<lparr>db_mana := w\<rparr>) = stamina self"
  "stamina_max (self\<lparr>db_mana := w\<rparr>) = stamina_max self"
  "mana_max (self\<lparr>db_mana := w\<rparr>) = mana_max self"
  "strength (self\<lparr>db_mana := w\<rparr>) = strength self"
  "will (self\<lparr>db_mana := w\<rparr>) = will self"
  by (simp_all add: hp_def hp_max_def stamina_def stamina_max_def mana_def mana_max_def
      strength_def will_def or_default_def)

lemma at_damage_below_zero:
  "hp self - damage < 0 \<Longrightarrow>
   at_damage roll_death self damage = at_defeat roll_death (self\<lparr>db_hp := Some (hp self - damage)\<rparr>)"
  by (simp add: at_damage_def Let_def)

lemma at_damage_above_zero:
  "0 < hp self - damage \<Longrightarrow>
   at_damage roll_death self damage = (self\<lparr>db_hp := Some (hp self - damage)\<rparr>, [])"
  by (simp add: at_damage_def Let_def)

lemma at_defeat_BaseCharacter:
  "cls self = BaseCharacter \<Longrightarrow>
   at_defeat roll_death self =
     (self, CallAtDefeat # CallAtDeath # (if ndb_combat self then [CallCombatRemove] else []) @ [MsgDie])"
  by (simp add: at_defeat_def BaseCharacter_at_defeat_def at_death_def BaseCharacter_at_death_def)

lemma at_defeat_Character:
  "cls self = Character \<Longrightarrow> at_defeat roll_death self = Character_at_defeat roll_death self"
  by (simp add: at_defeat_def)

lemma defeats_at_defeat: "defeats (snd (at_defeat roll_death self)) = 1"
  by (cases "cls self")
    (simp_all add: at_defeat_BaseCharacter at_defeat_Character Character_at_defeat_def defeats_def)

lemma at_defeat_signals: "CallAtDefeat \<in> set (snd (at_defeat roll_death self))"
  by (cases "cls self")
    (simp_all add: at_defeat_BaseCharacter at_defeat_Character Character_at_defeat_def)

lemma pools_bounded_at_defeat:
  assumes "pools_bounded self" and "\<And>c. pools_bounded c \<Longrightarrow> pools_bounded (roll_death c)"
  shows "pools_bounded (fst (at_defeat roll_death self))"
proof (cases "cls self")
  case BaseCharacter
  then show ?thesis using assms(1) by (simp add: at_defeat_BaseCharacter)
next
  case Character
  show ?thesis
  proof (cases "allow_death self")
    case True
    then show ?thesis using Character assms by (simp add: at_defeat_Character Character_at_defeat_def)
  next
    case False
    then show ?thesis using Character assms(1)
      by (simp add: at_defeat_Character Character_at_defeat_def pools_bounded_def)
  qed
qed

lemma pools_bounded_hp_write:
  "pools_bounded self \<Longrightarrow> v \<le> hp_max self \<Longrightarrow> pools_bounded (self\<lparr>db_hp := Some v\<rparr>)"
  by (simp add: pools_bounded_def)

lemma pools_bounded_at_damage:
  assumes "pools_bounded self" and "0 \<le> damage"
    and "\<And>c. pools_bounded c \<Longrightarrow> pools_bounded (roll_death c)"
  shows "pools_bounded (fst (at_damage roll_death self damage))"
proof -
  have le: "hp self - damage \<le> hp_max self"
    using assms(1,2) by (simp add: pools_bounded_def)
  have w: "pools_bounded (self\<lparr>db_hp := Some (hp self - damage)\<rparr>)"
    using assms(1) le by (rule pools_bounded_hp_write)
  show ?thesis
    using w pools_bounded_at_defeat [OF w assms(3)]
    by (simp add: at_damage_def Let_def)
qed

lemma pools_bounded_heal:
  assumes "pools_bounded self"
  shows "pools_bounded (fst (heal self amount healer))"
proof -
  have "hp self + min (hp_max self - hp self) amount \<le> hp_max self" by simp
  then show ?thesis using assms by (simp add: heal_def Let_def pools_bounded_hp_write)
qed

lemma pools_bounded_at_recovery:
  assumes "pools_bounded self"
  shows "pools_bounded (at_recovery self)"
  using assms by (simp add: at_recovery_def Let_def pools_bounded_def pool_ok_def)

lemma pools_bounded_apply_op:
  assumes "pools_bounded self" and "op_ok x"
    and "\<And>c. pools_bounded c \<Longrightarrow> pools_bounded (roll_death c)"
  shows "pools_bounded (fst (apply_op roll_death self x))"
  using assms
  by (cases x) (simp_all add: pools_bounded_at_damage pools_bounded_heal pools_bounded_at_recovery)

text \<open>
  C1, as stated, fails. Damage is not clamped: a character at HP 5 of 10 that takes 10
  damage is left at HP -5. A negative damage amount lifts HP above the maximum (10 of
  10 and damage -5 give 15), and a negative strength takes stamina below zero at the
  next recovery (stamina 4 and strength -9 give -5).
\<close>

theorem pools_inv_broken:
  "pools_inv (mk_char BaseCharacter 5 10 True) \<and>
   \<not> pools_inv (fst (run id (mk_char BaseCharacter 5 10 True) [Damage 10])) \<and>
   hp (fst (run id (mk_char BaseCharacter 5 10 True) [Damage 10])) = - 5 \<and>
   pools_inv (mk_char Character 10 10 False) \<and>
   \<not> pools_inv (fst (run id (mk_char Character 10 10 False) [Damage (- 5)])) \<and>
   hp (fst (run id (mk_char Character 10 10 False) [Damage (- 5)])) = 15 \<and>
   pools_inv ((mk_char Character 10 10 False)\<lparr>db_strength := Some (- 9)\<rparr>) \<and>
   \<not> pools_inv (fst (run id ((mk_char Character 10 10 False)\<lparr>db_strength := Some (- 9)\<rparr>) [Recovery])) \<and>
   stamina (fst (run id ((mk_char Character 10 10 False)\<lparr>db_strength := Some (- 9)\<rparr>) [Recovery])) = - 5"
  by (simp add: pools_inv_def pool_ok_def mk_char_def at_damage_def at_recovery_def Let_def
      at_defeat_def BaseCharacter_at_defeat_def at_death_def BaseCharacter_at_death_def
      hp_def hp_max_def stamina_def stamina_max_def mana_def mana_max_def strength_def will_def
      or_default_def)

text \<open>
  C1, amended. Start from a state where, for HP, stamina and mana, the current value is
  at most the maximum and the maximum is at least 1, stamina and mana are not negative,
  and strength and will are not negative. After every finite sequence of \<open>at_damage\<close>
  calls with non-negative damage, \<open>heal\<close> calls and \<open>at_recovery\<close> calls, all of that
  still holds, provided the external death roll keeps it too. Nothing is said about a
  lower bound of HP.
\<close>

theorem pools_stay_bounded:
  assumes "pools_bounded self" and "list_all op_ok ops"
    and "\<And>c. pools_bounded c \<Longrightarrow> pools_bounded (roll_death c)"
  shows "pools_bounded (fst (run roll_death self ops))"
  using assms(1,2)
proof (induction ops arbitrary: self)
  case Nil
  then show ?case by simp
next
  case (Cons x xs)
  have step: "pools_bounded (fst (apply_op roll_death self x))"
    using Cons.prems assms(3) by (simp add: pools_bounded_apply_op)
  have "pools_bounded (fst (run roll_death (fst (apply_op roll_death self x)) xs))"
    using Cons.IH [OF step] Cons.prems(2) by simp
  then show ?case by (simp add: case_prod_beta Let_def)
qed

theorem pools_stay_bounded_witness:
  "pools_bounded (mk_char BaseCharacter 5 10 True) \<and>
   list_all op_ok [Damage 10, Heal 50 HealerNone, Recovery, Damage 3] \<and>
   pools_bounded (id (mk_char BaseCharacter 5 10 True)) \<and>
   pools_bounded (fst (run id (mk_char BaseCharacter 5 10 True)
      [Damage 10, Heal 50 HealerNone, Recovery, Damage 3]))"
proof -
  have a: "pools_bounded (mk_char BaseCharacter 5 10 True)"
    by (simp add: pools_bounded_def pool_ok_def mk_char_def hp_def hp_max_def stamina_def
        stamina_max_def mana_def mana_max_def strength_def will_def or_default_def)
  have b: "list_all op_ok [Damage 10, Heal 50 HealerNone, Recovery, Damage 3]"
    by simp
  have c: "pools_bounded (id c)" if "pools_bounded c" for c
    using that by simp
  show ?thesis
    using a b pools_stay_bounded [OF a b c] by simp
qed


text \<open>
  C2, as stated, fails: HP is not clamped at 0. A character at HP 5 that takes 10
  damage has -5 stored and reads -5.
\<close>

theorem at_damage_not_clamped:
  "hp (mk_char BaseCharacter 5 10 True) = 5 \<and>
   db_hp (fst (at_damage id (mk_char BaseCharacter 5 10 True) 10)) = Some (- 5) \<and>
   hp (fst (at_damage id (mk_char BaseCharacter 5 10 True) 10)) = - 5"
  by (simp add: mk_char_def at_damage_def Let_def at_defeat_def BaseCharacter_at_defeat_def
      at_death_def BaseCharacter_at_death_def hp_def or_default_def)

text \<open>
  C2, amended. \<open>at_damage\<close> stores the old HP, as read, minus the amount, with no
  clamping. When the difference is above 0, that is the HP after the call and defeat is
  not signalled. When the difference is below 0, defeat is signalled; a BaseCharacter
  keeps the negative difference as its HP, a player character where death is forbidden
  ends at the maximum, and one where death is allowed is handed with the negative HP
  to the death roll. Nothing is said about a difference of exactly 0.
\<close>

theorem at_damage_stores_difference:
  "(0 < hp self - damage \<longrightarrow>
      fst (at_damage roll_death self damage) = self\<lparr>db_hp := Some (hp self - damage)\<rparr> \<and>
      hp (fst (at_damage roll_death self damage)) = hp self - damage \<and>
      CallAtDefeat \<notin> set (snd (at_damage roll_death self damage))) \<and>
   (hp self - damage < 0 \<longrightarrow>
      CallAtDefeat \<in> set (snd (at_damage roll_death self damage)) \<and>
      (cls self = BaseCharacter \<longrightarrow>
         fst (at_damage roll_death self damage) = self\<lparr>db_hp := Some (hp self - damage)\<rparr> \<and>
         hp (fst (at_damage roll_death self damage)) = hp self - damage) \<and>
      (cls self = Character \<and> \<not> allow_death self \<longrightarrow>
         hp (fst (at_damage roll_death self damage)) = hp_max self) \<and>
      (cls self = Character \<and> allow_death self \<longrightarrow>
         fst (at_damage roll_death self damage)
           = roll_death (self\<lparr>db_hp := Some (hp self - damage)\<rparr>)))"
proof -
  have pos: ?thesis if "0 < hp self - damage"
    using that by (simp add: at_damage_above_zero)
  have neg: ?thesis if n: "hp self - damage < 0"
  proof -
    have s: "CallAtDefeat \<in> set (snd (at_damage roll_death self damage))"
      using n by (simp add: at_damage_below_zero at_defeat_signals)
    have b: "fst (at_damage roll_death self damage) = self\<lparr>db_hp := Some (hp self - damage)\<rparr>
        \<and> hp (fst (at_damage roll_death self damage)) = hp self - damage"
      if "cls self = BaseCharacter"
      using n that by (simp add: at_damage_below_zero at_defeat_BaseCharacter)
    have y: "hp (fst (at_damage roll_death self damage)) = hp_max self"
      if "cls self = Character" "\<not> allow_death self"
      using n that hp_max_nonzero [of self]
      by (simp add: at_damage_below_zero at_defeat_Character Character_at_defeat_def)
    have d: "fst (at_damage roll_death self damage)
        = roll_death (self\<lparr>db_hp := Some (hp self - damage)\<rparr>)"
      if "cls self = Character" "allow_death self"
      using n that
      by (simp add: at_damage_below_zero at_defeat_Character Character_at_defeat_def)
    show ?thesis using n s b y d by simp
  qed
  have zero: ?thesis if "hp self - damage = 0"
    using that by simp
  show ?thesis using pos neg zero by linarith
qed

theorem at_damage_stores_difference_witness:
  "0 < hp (mk_char BaseCharacter 5 10 True) - 3 \<and>
   hp (fst (at_damage id (mk_char BaseCharacter 5 10 True) 3)) = 2 \<and>
   CallAtDefeat \<notin> set (snd (at_damage id (mk_char BaseCharacter 5 10 True) 3)) \<and>
   hp (mk_char BaseCharacter 5 10 True) - 10 < 0 \<and>
   cls (mk_char BaseCharacter 5 10 True) = BaseCharacter \<and>
   CallAtDefeat \<in> set (snd (at_damage id (mk_char BaseCharacter 5 10 True) 10)) \<and>
   hp (fst (at_damage id (mk_char BaseCharacter 5 10 True) 10)) = - 5 \<and>
   hp (mk_char Character 5 10 False) - 10 < 0 \<and>
   cls (mk_char Character 5 10 False) = Character \<and>
   \<not> allow_death (mk_char Character 5 10 False) \<and>
   hp (fst (at_damage id (mk_char Character 5 10 False) 10)) = 10 \<and>
   hp (mk_char Character 5 10 True) - 10 < 0 \<and>
   cls (mk_char Character 5 10 True) = Character \<and>
   allow_death (mk_char Character 5 10 True) \<and>
   db_hp (fst (at_damage id (mk_char Character 5 10 True) 10)) = Some (- 5)"
proof -
  have h: "hp (mk_char BaseCharacter 5 10 True) = 5" "hp (mk_char Character 5 10 False) = 5"
    "hp (mk_char Character 5 10 True) = 5" "hp_max (mk_char Character 5 10 False) = 10"
    by (simp_all add: mk_char_def hp_def hp_max_def or_default_def)
  have c: "cls (mk_char BaseCharacter 5 10 True) = BaseCharacter"
    "cls (mk_char Character 5 10 False) = Character" "\<not> allow_death (mk_char Character 5 10 False)"
    "cls (mk_char Character 5 10 True) = Character" "allow_death (mk_char Character 5 10 True)"
    by (simp_all add: mk_char_def)
  show ?thesis
    using h c
      at_damage_stores_difference [of "mk_char BaseCharacter 5 10 True" 3 id]
      at_damage_stores_difference [of "mk_char BaseCharacter 5 10 True" 10 id]
      at_damage_stores_difference [of "mk_char Character 5 10 False" 10 id]
      at_damage_stores_difference [of "mk_char Character 5 10 True" 10 id]
    by simp
qed

text \<open>
  C3, as stated, fails: there is no guard for a character that is already defeated. A
  BaseCharacter at HP 5 that takes 10 damage is defeated once, and taking 3 more
  damage defeats it a second time.
\<close>

theorem defeat_fires_twice:
  "hp (mk_char BaseCharacter 5 10 True) = 5 \<and>
   defeats (snd (run id (mk_char BaseCharacter 5 10 True) [Damage 10])) = 1 \<and>
   defeats (snd (run id (mk_char BaseCharacter 5 10 True) [Damage 10, Damage 3])) = 2"
  by (simp add: mk_char_def at_damage_def Let_def at_defeat_def BaseCharacter_at_defeat_def
      at_death_def BaseCharacter_at_death_def hp_def or_default_def defeats_def)

lemma run_damage_below_zero:
  "cls self = BaseCharacter \<Longrightarrow> hp self < 0 \<Longrightarrow> list_all (\<lambda>d. 0 \<le> d) ds \<Longrightarrow>
   defeats (snd (run roll_death self (map Damage ds))) = length ds"
proof (induction ds arbitrary: self)
  case Nil
  then show ?case by (simp add: defeats_def)
next
  case (Cons d ds)
  let ?self1 = "self\<lparr>db_hp := Some (hp self - d)\<rparr>"
  have n: "hp self - d < 0" using Cons.prems by simp
  have step: "at_damage roll_death self d =
      (?self1, CallAtDefeat # CallAtDeath # (if ndb_combat self then [CallCombatRemove] else []) @ [MsgDie])"
    using n Cons.prems(1) by (simp add: at_damage_below_zero at_defeat_BaseCharacter)
  have c1: "cls ?self1 = BaseCharacter" using Cons.prems(1) by simp
  have h1: "hp ?self1 < 0" using n by simp
  have rest: "defeats (snd (run roll_death ?self1 (map Damage ds))) = length ds"
    using Cons.IH [OF c1 h1] Cons.prems(3) by simp
  show ?case
    using rest by (simp add: step case_prod_beta Let_def defeats_def)
qed

text \<open>
  C3, amended. An \<open>at_damage\<close> call that leaves the HP below 0 triggers \<open>at_defeat\<close>
  exactly once, and one that leaves it above 0 does not trigger it. There is no guard
  for the defeated: on a BaseCharacter whose HP is below 0, every further call with
  non-negative damage triggers \<open>at_defeat\<close> again, once per call. Nothing is said
  about a call that leaves the HP at exactly 0.
\<close>

theorem defeat_fires_on_every_call_below_zero:
  "(hp self - damage < 0 \<longrightarrow> defeats (snd (at_damage roll_death self damage)) = 1) \<and>
   (0 < hp self - damage \<longrightarrow> defeats (snd (at_damage roll_death self damage)) = 0) \<and>
   (cls self = BaseCharacter \<and> hp self < 0 \<and> list_all (\<lambda>d. 0 \<le> d) ds \<longrightarrow>
      defeats (snd (run roll_death self (map Damage ds))) = length ds)"
  by (simp add: at_damage_below_zero at_damage_above_zero defeats_at_defeat run_damage_below_zero)
    (simp add: defeats_def)

theorem defeat_fires_on_every_call_below_zero_witness:
  "hp (mk_char Character 5 10 True) - 10 < 0 \<and>
   defeats (snd (at_damage id (mk_char Character 5 10 True) 10)) = 1 \<and>
   0 < hp (mk_char Character 5 10 True) - 3 \<and>
   defeats (snd (at_damage id (mk_char Character 5 10 True) 3)) = 0 \<and>
   cls (mk_char BaseCharacter (- 5) 10 True) = BaseCharacter \<and>
   hp (mk_char BaseCharacter (- 5) 10 True) < 0 \<and>
   list_all (\<lambda>d. 0 \<le> d) [3, 0, 4 :: int] \<and>
   defeats (snd (run id (mk_char BaseCharacter (- 5) 10 True) (map Damage [3, 0, 4]))) = 3"
proof -
  have h: "hp (mk_char Character 5 10 True) = 5" "hp (mk_char BaseCharacter (- 5) 10 True) = - 5"
    by (simp_all add: mk_char_def hp_def or_default_def)
  have c: "cls (mk_char BaseCharacter (- 5) 10 True) = BaseCharacter"
    by (simp add: mk_char_def)
  have l: "list_all (\<lambda>d. 0 \<le> d) [3, 0, 4 :: int]" by simp
  show ?thesis
    using h c l
      defeat_fires_on_every_call_below_zero [of "mk_char Character 5 10 True" 10 id "[]"]
      defeat_fires_on_every_call_below_zero [of "mk_char Character 5 10 True" 3 id "[]"]
      defeat_fires_on_every_call_below_zero [of "mk_char BaseCharacter (- 5) 10 True" 0 id "[3, 0, 4]"]
    by simp
qed

end
